theory Spec2Isabelle
  imports Main
begin

section \<open>Data model\<close>

text \<open>
  The development embeds \<^verbatim>\<open>libyul/backends/evm/SSAEVMCodeTransform.cpp\<close>: the driver
  \<^verbatim>\<open>run\<close>, the constructor with its function label table, the stack primitives
  \<^verbatim>\<open>pop\<close> and \<^verbatim>\<open>swap\<close> and the block traversal \<^verbatim>\<open>operator()(SSACFG::BlockId)\<close>.
  The string helpers (\<^verbatim>\<open>stackToString\<close> and friends) are embedded because the block
  traversal calls them for its debugging print, and the look-up they make can throw; the
  text that goes to \<^verbatim>\<open>std::cout\<close> is computed and not kept, since the output stream is
  no part of the scheduler or of the sink.

  Identities are \<^verbatim>\<open>size_t\<close> wrappers in the source (\<^verbatim>\<open>_block.value\<close>, \<^verbatim>\<open>_var.value\<close>);
  they are natural numbers here.
\<close>

type_synonym valueId = nat
type_synonym blockId = nat
type_synonym labelID = nat

text \<open>\<^verbatim>\<open>std::numeric_limits<size_t>::max()\<close>, the identity that stands for no value.\<close>

definition invalidId :: nat where
  "invalidId = 2 ^ 64 - 1"

text \<open>
  \<^verbatim>\<open>StackSlot\<close> is the variant the source visits in \<^verbatim>\<open>stackSlotToString\<close>: an SSA value
  or a label of the assembly.
\<close>

datatype stackSlot = ValueSlot valueId | LabelSlot labelID

text \<open>
  Modelled from the spec: the declarations of \<^verbatim>\<open>SSACFG\<close> (its header is not part of the
  sources) are missing. An operation has ordered inputs and ordered outputs, a block
  has an ordered list of operations, and a graph has its blocks, the defining information
  of its values (unreachable, a literal constant, or an ordinary value), the function it
  belongs to (absent for the entry sequence), its arguments and returns and an optional
  debug record with an optional AST identifier. A \<^verbatim>\<open>Scope::Function\<close> is referred to
  through a pointer; \<open>address\<close> stands for that pointer.
\<close>

datatype valueInfo = UnreachableValue | LiteralValue nat | OrdinaryValue

record operation =
  inputs :: "valueId list"
  outputs :: "valueId list"

record basicBlock =
  operations :: "operation list"

record scopeFunction =
  address :: nat
  name :: string

record ssacfg =
  blocks :: "basicBlock list"
  valueInfos :: "valueInfo list"
  func :: "scopeFunction option"
  arguments :: "valueId list"
  returns :: "valueId list"
  debugData :: "int option option"

text \<open>
  The liveness oracle \<^verbatim>\<open>SSACFGLiveness\<close> is an external collaborator; the source only calls
  \<^verbatim>\<open>operationsLiveOut(_block)\<close> on it, so an oracle is the function answering that call.
\<close>

type_synonym liveness = "blockId \<Rightarrow> valueId set list"

text \<open>
  \<^verbatim>\<open>ControlFlow\<close> as \<^verbatim>\<open>run\<close> uses it: the main graph and the functions with their graphs,
  in the order of the container.
\<close>

record controlFlow =
  mainGraph :: ssacfg
  functionGraphMapping :: "(scopeFunction \<times> ssacfg) list"

text \<open>
  The naming policy. The source names \<^verbatim>\<open>Never\<close> and \<^verbatim>\<open>YesAndForceUnique\<close>; the third value
  is the spec's "name them but allow duplicates".
\<close>

datatype useNamedLabels = Never | YesAndForceUnique | YesAndAllowDuplicates

text \<open>
  Modelled from the spec: \<^verbatim>\<open>StackTooDeepError\<close> is declared outside the sources. A violation
  names the unit and the program point affected.
\<close>

datatype stackTooDeepError = StackTooDeepError string nat

section \<open>The instruction sink\<close>

text \<open>
  Modelled from the spec: \<^verbatim>\<open>AbstractAssembly\<close> is an abstract interface whose implementation
  is missing. The sink is the log of the requests it has received, together with the
  number of labels it has allocated; a fresh label is the next number. Only the two
  instructions the source requests are listed.
\<close>

datatype instruction = POP | SWAP nat

datatype request =
    AppendInstruction instruction
  | AppendLabel labelID
  | SetStackHeight int
  | NewLabelId labelID
  | NamedLabel string nat nat "int option" labelID

record assembly =
  requests :: "request list"
  labelCount :: nat

definition appendInstruction :: "instruction \<Rightarrow> assembly \<Rightarrow> assembly" where
  "appendInstruction i a = a\<lparr>requests := requests a @ [AppendInstruction i]\<rparr>"

definition appendLabel :: "labelID \<Rightarrow> assembly \<Rightarrow> assembly" where
  "appendLabel l a = a\<lparr>requests := requests a @ [AppendLabel l]\<rparr>"

definition setStackHeight :: "int \<Rightarrow> assembly \<Rightarrow> assembly" where
  "setStackHeight h a = a\<lparr>requests := requests a @ [SetStackHeight h]\<rparr>"

definition newLabelId :: "assembly \<Rightarrow> labelID \<times> assembly" where
  "newLabelId a =
     (labelCount a,
      a\<lparr>requests := requests a @ [NewLabelId (labelCount a)],
        labelCount := Suc (labelCount a)\<rparr>)"

definition namedLabel ::
  "string \<Rightarrow> nat \<Rightarrow> nat \<Rightarrow> int option \<Rightarrow> assembly \<Rightarrow> labelID \<times> assembly" where
  "namedLabel nm params rets astID a =
     (labelCount a,
      a\<lparr>requests := requests a @ [NamedLabel nm params rets astID (labelCount a)],
        labelCount := Suc (labelCount a)\<rparr>)"

text \<open>
  Modelled from the spec: \<^verbatim>\<open>evmasm::swapInstruction\<close> (libevmasm) is missing. The spec
  bounds the swap distance by the machine's maximum addressable depth, 16 on the target,
  whose swap instructions exchange the top with the slot 1 to 16 positions below it; a
  request outside that range is rejected and yields no instruction.
\<close>

definition maxSwapDepth :: nat where
  "maxSwapDepth = 16"

definition swapInstruction :: "nat \<Rightarrow> instruction option" where
  "swapInstruction n = (if 1 \<le> n \<and> n \<le> maxSwapDepth then Some (SWAP n) else None)"

text \<open>
  The two integer conversions of the source: \<^verbatim>\<open>static_cast<unsigned>\<close> keeps the low
  32 bits, \<^verbatim>\<open>static_cast<int>\<close> reads them as two's complement.
\<close>

definition castUnsigned :: "nat \<Rightarrow> nat" where
  "castUnsigned n = n mod 2 ^ 32"

definition castInt :: "nat \<Rightarrow> int" where
  "castInt n = (if n mod 2 ^ 32 < 2 ^ 31 then int (n mod 2 ^ 32) else int (n mod 2 ^ 32) - 2 ^ 32)"

section \<open>Faults\<close>

text \<open>
  A failed \<^verbatim>\<open>yulAssert\<close>, a rejected instruction request and an out-of-range look-up throw.
  The scheduler object is lost with the exception; the sink, which the caller owns,
  survives in the state it had at the throw and is carried by the fault.
\<close>

datatype assertion =
    NameAlreadySeen
  | StackEmpty
  | StackTooShallow
  | InvalidSwapInstruction nat
  | NoStartingLayout blockId
  | OperationsLivenessMismatch
  | BlockOutOfRange blockId
  | ValueOutOfRange valueId
  | FunctionLabelMissing

datatype error = Fault assertion assembly

section \<open>The scheduler state\<close>

record blockData =
  label :: "labelID option"
  stackIn :: "stackSlot list option"

text \<open>
  The members of \<^verbatim>\<open>SSAEVMCodeTransform\<close> that the source reads or writes. The builtin
  context is stored and never used. \<^verbatim>\<open>m_functionLabels\<close> is keyed by the function's address.
\<close>

record transform =
  m_assembly :: assembly
  m_cfg :: ssacfg
  m_liveness :: liveness
  m_functionLabels :: "(nat \<times> labelID) list"
  m_blockData :: "blockData list"
  m_stack :: "stackSlot list"
  m_stackErrors :: "stackTooDeepError list"
  m_currentBlock :: blockId

section \<open>Stack primitives\<close>

text \<open>\<^verbatim>\<open>pop\<close>: the assertion comes first, then the model is shortened, then POP is requested.\<close>

definition pop :: "transform \<Rightarrow> error + transform" where
  "pop t =
     (if m_stack t = [] then Inl (Fault StackEmpty (m_assembly t))
      else Inr (t\<lparr>m_stack := butlast (m_stack t),
                  m_assembly := appendInstruction POP (m_assembly t)\<rparr>))"

text \<open>\<^verbatim>\<open>std::swap(m_stack[m_stack.size() - _depth - 1], m_stack.back())\<close>.\<close>

definition swapSlots :: "nat \<Rightarrow> stackSlot list \<Rightarrow> stackSlot list" where
  "swapSlots depth s =
     (let i = length s - depth - 1; j = length s - 1
      in s[i := s ! j, j := s ! i])"

text \<open>
  \<^verbatim>\<open>swap\<close>: the instruction is requested first (the request itself can be rejected), and
  only then the source asserts that the model is deep enough and exchanges the slots.
\<close>

definition swap :: "nat \<Rightarrow> transform \<Rightarrow> error + transform" where
  "swap depth t =
     (case swapInstruction (castUnsigned depth) of
        None \<Rightarrow> Inl (Fault (InvalidSwapInstruction (castUnsigned depth)) (m_assembly t))
      | Some i \<Rightarrow>
          (let a = appendInstruction i (m_assembly t)
           in if depth < length (m_stack t)
              then Inr (t\<lparr>m_assembly := a, m_stack := swapSlots depth (m_stack t)\<rparr>)
              else Inl (Fault StackTooShallow a)))"

section \<open>Construction\<close>

text \<open>\<^verbatim>\<open>std::set::insert\<close> returns, second, whether the element was new.\<close>

definition setInsert :: "'a \<Rightarrow> 'a set \<Rightarrow> 'a set \<times> bool" where
  "setInsert x S = (insert x S, x \<notin> S)"

text \<open>
  The initialiser of \<^verbatim>\<open>m_functionLabels\<close>. The set \<^verbatim>\<open>assignedFunctionNames\<close> is a local of
  the initialiser and starts empty each time a scheduler is constructed.
\<close>

definition functionLabels ::
  "useNamedLabels \<Rightarrow> ssacfg \<Rightarrow> assembly \<Rightarrow> error + ((nat \<times> labelID) list \<times> assembly)" where
  "functionLabels policy cfg a =
     (case func cfg of
        None \<Rightarrow> Inr ([], a)
      | Some f \<Rightarrow>
          (let assignedFunctionNames = ({} :: string set);
               nameAlreadySeen = (\<not> snd (setInsert (name f) assignedFunctionNames))
           in if policy = YesAndForceUnique \<and> nameAlreadySeen
              then Inl (Fault NameAlreadySeen a)
              else
                (let useNamedLabel = (policy \<noteq> Never \<and> \<not> nameAlreadySeen);
                     la = (if useNamedLabel
                           then namedLabel (name f) (length (arguments cfg))
                                  (length (returns cfg))
                                  (case debugData cfg of None \<Rightarrow> None | Some d \<Rightarrow> d) a
                           else newLabelId a)
                 in Inr ([(address f, fst la)], snd la))))"

text \<open>
  The constructor. The stack and the violation list start empty; the block table has one
  empty entry for each block. The header that initialises \<^verbatim>\<open>m_currentBlock\<close> is
  missing; the member is taken to start as the invalid identity. It is only written, for
  debugging.
\<close>

definition newTransform ::
  "useNamedLabels \<Rightarrow> ssacfg \<Rightarrow> liveness \<Rightarrow> assembly \<Rightarrow> error + transform" where
  "newTransform policy cfg live a =
     (case functionLabels policy cfg a of
        Inl e \<Rightarrow> Inl e
      | Inr (labels, a') \<Rightarrow>
          Inr \<lparr>m_assembly = a', m_cfg = cfg, m_liveness = live,
               m_functionLabels = labels,
               m_blockData = replicate (length (blocks cfg)) \<lparr>label = None, stackIn = None\<rparr>,
               m_stack = [], m_stackErrors = [], m_currentBlock = invalidId\<rparr>)"

text \<open>\<^verbatim>\<open>getFunctionLabel\<close>: \<^verbatim>\<open>std::map::at\<close> throws for a function that has no entry.\<close>

definition getFunctionLabel :: "scopeFunction \<Rightarrow> transform \<Rightarrow> error + labelID" where
  "getFunctionLabel f t =
     (case map_of (m_functionLabels t) (address f) of
        None \<Rightarrow> Inl (Fault FunctionLabelMissing (m_assembly t))
      | Some l \<Rightarrow> Inr l)"

section \<open>Formatting\<close>

text \<open>Decimal digits, as \<^verbatim>\<open>std::to_string\<close> and the stream output of a literal print them.\<close>

function decimal :: "nat \<Rightarrow> string" where
  "decimal n =
     (if n < 10 then [char_of (48 + n)]
      else decimal (n div 10) @ [char_of (48 + n mod 10)])"
  by pat_completeness auto
termination
  by (relation "measure (\<lambda>n. n)") auto

declare decimal.simps [simp del]

text \<open>
  Modelled from the spec: \<^verbatim>\<open>util::joinHumanReadable\<close> (libsolutil) and the accessor
  \<^verbatim>\<open>valueInfo(_var)\<close> of the graph are missing. The first joins the items with a comma and
  a space. The second looks a value up in the table of the graph that holds its defining
  information; an identity outside the table is a fault.
\<close>

definition joinHumanReadable :: "string list \<Rightarrow> string" where
  "joinHumanReadable items =
     (case items of [] \<Rightarrow> [] | x # xs \<Rightarrow> x @ concat (map (\<lambda>y. '', '' @ y) xs))"

definition valueInfo :: "ssacfg \<Rightarrow> valueId \<Rightarrow> assertion + valueInfo" where
  "valueInfo cfg v =
     (if v < length (valueInfos cfg) then Inr (valueInfos cfg ! v) else Inl (ValueOutOfRange v))"

definition ssaCfgVarToString :: "ssacfg \<Rightarrow> valueId \<Rightarrow> assertion + string" where
  "ssaCfgVarToString cfg v =
     (if v = invalidId then Inr ''INVALID''
      else case valueInfo cfg v of
             Inl x \<Rightarrow> Inl x
           | Inr UnreachableValue \<Rightarrow> Inr ''[unreachable]''
           | Inr (LiteralValue n) \<Rightarrow> Inr (decimal n)
           | Inr OrdinaryValue \<Rightarrow> Inr (''v'' @ decimal v))"

definition stackSlotToString :: "transform \<Rightarrow> stackSlot \<Rightarrow> assertion + string" where
  "stackSlotToString t slot =
     (case slot of
        ValueSlot v \<Rightarrow> ssaCfgVarToString (m_cfg t) v
      | LabelSlot l \<Rightarrow> Inr (''LABEL['' @ decimal l @ '']''))"

text \<open>The slots are formatted from the bottom of the stack up; the first look-up that throws ends it.\<close>

fun slotsToStrings :: "transform \<Rightarrow> stackSlot list \<Rightarrow> assertion + string list" where
  "slotsToStrings t [] = Inr []"
| "slotsToStrings t (slot # rest) =
     (case stackSlotToString t slot of
        Inl x \<Rightarrow> Inl x
      | Inr str \<Rightarrow>
          (case slotsToStrings t rest of
             Inl x \<Rightarrow> Inl x
           | Inr strs \<Rightarrow> Inr (str # strs)))"

definition stackToString :: "transform \<Rightarrow> stackSlot list \<Rightarrow> assertion + string" where
  "stackToString t stack =
     (case slotsToStrings t stack of
        Inl x \<Rightarrow> Inl x
      | Inr strs \<Rightarrow> Inr (''['' @ joinHumanReadable strs @ '']''))"

section \<open>Block traversal\<close>

text \<open>
  Modelled from the spec: the accessors \<^verbatim>\<open>blockData(_block)\<close> and \<^verbatim>\<open>m_cfg.block(_block)\<close>
  are declared in headers that are missing. The tables are indexable by block identity;
  an identity outside the table is a fault.
\<close>

definition blockDataAt :: "blockId \<Rightarrow> transform \<Rightarrow> error + blockData" where
  "blockDataAt b t =
     (if b < length (m_blockData t) then Inr (m_blockData t ! b)
      else Inl (Fault (BlockOutOfRange b) (m_assembly t)))"

definition blockOperations :: "blockId \<Rightarrow> transform \<Rightarrow> error + operation list" where
  "blockOperations b t =
     (if b < length (blocks (m_cfg t)) then Inr (operations (blocks (m_cfg t) ! b))
      else Inl (Fault (BlockOutOfRange b) (m_assembly t)))"

text \<open>The block's label is allocated on first use and then emitted as a jump target.\<close>

definition defineLabel :: "blockId \<Rightarrow> transform \<Rightarrow> error + transform" where
  "defineLabel b t =
     (case blockDataAt b t of
        Inl e \<Rightarrow> Inl e
      | Inr bd \<Rightarrow>
          (case label bd of
             Some l \<Rightarrow> Inr (t\<lparr>m_assembly := appendLabel l (m_assembly t)\<rparr>)
           | None \<Rightarrow>
               (let la = newLabelId (m_assembly t)
                in Inr (t\<lparr>m_blockData := (m_blockData t)[b := bd\<lparr>label := Some (fst la)\<rparr>],
                          m_assembly := appendLabel (fst la) (snd la)\<rparr>))))"

text \<open>
  \<^verbatim>\<open>yulAssert(stackIn, "No starting layout for block b...")\<close>, then the working stack
  becomes a copy of the layout.
\<close>

definition loadStackIn :: "blockId \<Rightarrow> transform \<Rightarrow> error + transform" where
  "loadStackIn b t =
     (case blockDataAt b t of
        Inl e \<Rightarrow> Inl e
      | Inr bd \<Rightarrow>
          (case stackIn bd of
             None \<Rightarrow> Inl (Fault (NoStartingLayout b) (m_assembly t))
           | Some s \<Rightarrow> Inr (t\<lparr>m_stack := s\<rparr>)))"

text \<open>\<^verbatim>\<open>m_assembly.setStackHeight(static_cast<int>(m_stack.size()))\<close>.\<close>

definition reportStackHeight :: "transform \<Rightarrow> transform" where
  "reportStackHeight t =
     t\<lparr>m_assembly := setStackHeight (castInt (length (m_stack t))) (m_assembly t)\<rparr>"

text \<open>The part of the block visit before the operations: label, entry layout, height.\<close>

definition enterBlock :: "blockId \<Rightarrow> transform \<Rightarrow> error + transform" where
  "enterBlock b t =
     (case defineLabel b t of
        Inl e \<Rightarrow> Inl e
      | Inr t1 \<Rightarrow>
          (case loadStackIn b t1 of
             Inl e \<Rightarrow> Inl e
           | Inr t2 \<Rightarrow> Inr (reportStackHeight t2)))"

text \<open>
  The bodies of \<^verbatim>\<open>operator()(SSACFG::Operation const&, std::set<SSACFG::ValueId> const&)\<close>,
  \<^verbatim>\<open>operator()(Scope::Function const&, SSACFG const&)\<close>, \<^verbatim>\<open>createStackTop\<close>,
  \<^verbatim>\<open>bringUpSlot\<close> and \<^verbatim>\<open>createExactStack\<close> are empty in the source (\<^verbatim>\<open>// todo\<close>): they
  return without touching the scheduler or the sink.
\<close>

definition visitOperation :: "operation \<Rightarrow> valueId set \<Rightarrow> transform \<Rightarrow> error + transform" where
  "visitOperation operation liveOut t = Inr t"

definition visitFunction :: "scopeFunction \<Rightarrow> ssacfg \<Rightarrow> transform \<Rightarrow> error + transform" where
  "visitFunction function functionGraph t = Inr t"

definition createStackTop :: "stackSlot list \<Rightarrow> valueId set \<Rightarrow> transform \<Rightarrow> error + transform" where
  "createStackTop targetTop liveOut t = Inr t"

definition bringUpSlot :: "stackSlot \<Rightarrow> transform \<Rightarrow> error + transform" where
  "bringUpSlot slot t = Inr t"

definition createExactStack :: "stackSlot list \<Rightarrow> transform \<Rightarrow> error + transform" where
  "createExactStack target t = Inr t"

text \<open>
  The loop over \<^verbatim>\<open>ranges::zip_view(operations, operationsLiveOut)\<close>. The traversal is
  given for any body \<open>step\<close> of the per-operation visit, so that what is proved of it does
  not depend on that body being empty; the source's traversal is its instance at
  \<^const>\<open>visitOperation\<close>.
\<close>

fun processOperations ::
  "(operation \<Rightarrow> valueId set \<Rightarrow> transform \<Rightarrow> error + transform) \<Rightarrow>
   (operation \<times> valueId set) list \<Rightarrow> transform \<Rightarrow> error + transform" where
  "processOperations step [] t = Inr t"
| "processOperations step ((operation, liveOut) # rest) t =
     (case step operation liveOut t of
        Inl e \<Rightarrow> Inl e
      | Inr t' \<Rightarrow> processOperations step rest t')"

text \<open>
  \<^verbatim>\<open>operator()(SSACFG::BlockId)\<close>. \<^verbatim>\<open>ScopedSaveAndRestore stackSave{m_stack, {}}\<close> keeps the
  caller's stack, empties the member, and puts the kept value back when the scope is
  left. Between the height report and the count assertion the source prints the line
  \<^verbatim>\<open>"Generate block b" << _block.value << ": " << stackToString(m_stack)\<close>; formatting the
  stack looks every value slot up in the graph and throws for one that is not there.
\<close>

definition visitBlockWith ::
  "(operation \<Rightarrow> valueId set \<Rightarrow> transform \<Rightarrow> error + transform) \<Rightarrow>
   blockId \<Rightarrow> transform \<Rightarrow> error + transform" where
  "visitBlockWith step b t =
     (let stackSave = m_stack t
      in case enterBlock b (t\<lparr>m_currentBlock := b, m_stack := []\<rparr>) of
           Inl e \<Rightarrow> Inl e
         | Inr t1 \<Rightarrow>
             (case stackToString t1 (m_stack t1) of
                Inl x \<Rightarrow> Inl (Fault x (m_assembly t1))
              | Inr str \<Rightarrow>
                  (let line = ''Generate block b'' @ decimal b @ '': '' @ str
                   in case blockOperations b t1 of
                        Inl e \<Rightarrow> Inl e
                      | Inr ops \<Rightarrow>
                          if length ops \<noteq> length (m_liveness t1 b)
                          then Inl (Fault OperationsLivenessMismatch (m_assembly t1))
                          else
                            (case processOperations step (zip ops (m_liveness t1 b)) t1 of
                               Inl e \<Rightarrow> Inl e
                             | Inr t2 \<Rightarrow> Inr (t2\<lparr>m_stack := stackSave\<rparr>)))))"

definition visitBlock :: "blockId \<Rightarrow> transform \<Rightarrow> error + transform" where
  "visitBlock = visitBlockWith visitOperation"

section \<open>The driver\<close>

text \<open>
  \<^verbatim>\<open>run\<close> takes the control flow that the graph builder produced and the constructor of
  the liveness oracle as given. First the part before the traversal of the entry unit:
  the entry scheduler is constructed and the entry layout of its block 0 is forced empty.
\<close>

definition forceEmptyEntry :: "transform \<Rightarrow> error + transform" where
  "forceEmptyEntry t =
     (case blockDataAt 0 t of
        Inl e \<Rightarrow> Inl e
      | Inr bd \<Rightarrow> Inr (t\<lparr>m_blockData := (m_blockData t)[0 := bd\<lparr>stackIn := Some []\<rparr>]\<rparr>))"

definition mainCodeTransform ::
  "(ssacfg \<Rightarrow> liveness) \<Rightarrow> useNamedLabels \<Rightarrow> controlFlow \<Rightarrow> assembly \<Rightarrow> error + transform" where
  "mainCodeTransform mkLiveness policy cf a =
     (case newTransform policy (mainGraph cf) (mkLiveness (mainGraph cf)) a of
        Inl e \<Rightarrow> Inl e
      | Inr t \<Rightarrow> forceEmptyEntry t)"

text \<open>
  The loop over \<^verbatim>\<open>functionGraphMapping\<close>: a scheduler of its own for each function, on the
  sink the previous unit left; its violations are appended when there are any.
\<close>

fun compileFunctionsWith ::
  "(scopeFunction \<Rightarrow> ssacfg \<Rightarrow> transform \<Rightarrow> error + transform) \<Rightarrow>
   (ssacfg \<Rightarrow> liveness) \<Rightarrow> useNamedLabels \<Rightarrow> (scopeFunction \<times> ssacfg) list \<Rightarrow>
   assembly \<Rightarrow> stackTooDeepError list \<Rightarrow> error + (stackTooDeepError list \<times> assembly)" where
  "compileFunctionsWith fstep mkLiveness policy [] a stackErrors = Inr (stackErrors, a)"
| "compileFunctionsWith fstep mkLiveness policy ((f, g) # rest) a stackErrors =
     (case newTransform policy g (mkLiveness g) a of
        Inl e \<Rightarrow> Inl e
      | Inr t \<Rightarrow>
          (case fstep f g t of
             Inl e \<Rightarrow> Inl e
           | Inr t' \<Rightarrow>
               compileFunctionsWith fstep mkLiveness policy rest (m_assembly t')
                 (if m_stackErrors t' \<noteq> [] then stackErrors @ m_stackErrors t'
                  else stackErrors)))"

definition runWith ::
  "(operation \<Rightarrow> valueId set \<Rightarrow> transform \<Rightarrow> error + transform) \<Rightarrow>
   (scopeFunction \<Rightarrow> ssacfg \<Rightarrow> transform \<Rightarrow> error + transform) \<Rightarrow>
   (ssacfg \<Rightarrow> liveness) \<Rightarrow> useNamedLabels \<Rightarrow> controlFlow \<Rightarrow> assembly \<Rightarrow>
   error + (stackTooDeepError list \<times> assembly)" where
  "runWith step fstep mkLiveness policy cf a =
     (case mainCodeTransform mkLiveness policy cf a of
        Inl e \<Rightarrow> Inl e
      | Inr t \<Rightarrow>
          (case visitBlockWith step 0 t of
             Inl e \<Rightarrow> Inl e
           | Inr t' \<Rightarrow>
               compileFunctionsWith fstep mkLiveness policy (functionGraphMapping cf)
                 (m_assembly t')
                 (if m_stackErrors t' \<noteq> [] then m_stackErrors t' else [])))"

definition run ::
  "(ssacfg \<Rightarrow> liveness) \<Rightarrow> useNamedLabels \<Rightarrow> controlFlow \<Rightarrow> assembly \<Rightarrow>
   error + (stackTooDeepError list \<times> assembly)" where
  "run = runWith visitOperation visitFunction"

text \<open>
  The spec's account of the driver, for comparison with \<^const>\<open>runWith\<close>: the units are
  scheduled one after the other, the entry sequence first and then every function in
  order, each on the sink its predecessor left. The result lists the schedulers as they
  are when their unit is done.
\<close>

fun functionUnits ::
  "(scopeFunction \<Rightarrow> ssacfg \<Rightarrow> transform \<Rightarrow> error + transform) \<Rightarrow>
   (ssacfg \<Rightarrow> liveness) \<Rightarrow> useNamedLabels \<Rightarrow> (scopeFunction \<times> ssacfg) list \<Rightarrow>
   assembly \<Rightarrow> error + transform list" where
  "functionUnits fstep mkLiveness policy [] a = Inr []"
| "functionUnits fstep mkLiveness policy ((f, g) # rest) a =
     (case newTransform policy g (mkLiveness g) a of
        Inl e \<Rightarrow> Inl e
      | Inr t \<Rightarrow>
          (case fstep f g t of
             Inl e \<Rightarrow> Inl e
           | Inr t' \<Rightarrow>
               (case functionUnits fstep mkLiveness policy rest (m_assembly t') of
                  Inl e \<Rightarrow> Inl e
                | Inr us \<Rightarrow> Inr (t' # us))))"

definition scheduledUnits ::
  "(operation \<Rightarrow> valueId set \<Rightarrow> transform \<Rightarrow> error + transform) \<Rightarrow>
   (scopeFunction \<Rightarrow> ssacfg \<Rightarrow> transform \<Rightarrow> error + transform) \<Rightarrow>
   (ssacfg \<Rightarrow> liveness) \<Rightarrow> useNamedLabels \<Rightarrow> controlFlow \<Rightarrow> assembly \<Rightarrow>
   error + transform list" where
  "scheduledUnits step fstep mkLiveness policy cf a =
     (case mainCodeTransform mkLiveness policy cf a of
        Inl e \<Rightarrow> Inl e
      | Inr t \<Rightarrow>
          (case visitBlockWith step 0 t of
             Inl e \<Rightarrow> Inl e
           | Inr t' \<Rightarrow>
               (case functionUnits fstep mkLiveness policy (functionGraphMapping cf)
                       (m_assembly t') of
                  Inl e \<Rightarrow> Inl e
                | Inr us \<Rightarrow> Inr (t' # us))))"

section \<open>Observations and example inputs\<close>

text \<open>
  What an observer of the sink sees: the stack heights it has been told, in the order of
  the reports, and the number of POP instructions it has been handed. The sink a call
  leaves behind is the scheduler's on return and the fault's on a throw.
\<close>

definition heightReports :: "assembly \<Rightarrow> int list" where
  "heightReports a =
     concat (map (\<lambda>r. case r of SetStackHeight h \<Rightarrow> [h] | _ \<Rightarrow> []) (requests a))"

definition popCount :: "assembly \<Rightarrow> nat" where
  "popCount a = length (filter (\<lambda>r. r = AppendInstruction POP) (requests a))"

definition sinkAfter :: "error + transform \<Rightarrow> assembly" where
  "sinkAfter r = (case r of Inl (Fault x a) \<Rightarrow> a | Inr t \<Rightarrow> m_assembly t)"

definition runSink :: "error + (stackTooDeepError list \<times> assembly) \<Rightarrow> assembly" where
  "runSink r = (case r of Inl (Fault x a) \<Rightarrow> a | Inr (errs, a) \<Rightarrow> a)"

text \<open>A sink that has received nothing, and a scheduler as the constructor leaves it.\<close>

definition emptyAssembly :: assembly where
  "emptyAssembly = \<lparr>requests = [], labelCount = 0\<rparr>"

definition emptyGraph :: ssacfg where
  "emptyGraph = \<lparr>blocks = [\<lparr>operations = []\<rparr>], valueInfos = [], func = None,
                  arguments = [], returns = [], debugData = None\<rparr>"

definition noLiveness :: "ssacfg \<Rightarrow> liveness" where
  "noLiveness g b = []"

definition freshTransform :: transform where
  "freshTransform =
     \<lparr>m_assembly = emptyAssembly, m_cfg = emptyGraph, m_liveness = noLiveness emptyGraph,
      m_functionLabels = [], m_blockData = [\<lparr>label = None, stackIn = None\<rparr>],
      m_stack = [], m_stackErrors = [], m_currentBlock = invalidId\<rparr>"

text \<open>
  The spec's scenario of one block with an empty entry stack and one operation that takes
  no input and produces the literal 5, which stays live.
\<close>

definition literalOperation :: operation where
  "literalOperation = \<lparr>inputs = [], outputs = [5]\<rparr>"

definition literalGraph :: ssacfg where
  "literalGraph = \<lparr>blocks = [\<lparr>operations = [literalOperation]\<rparr>],
                    valueInfos = replicate 5 OrdinaryValue @ [LiteralValue 5], func = None,
                    arguments = [], returns = [], debugData = None\<rparr>"

definition literalLiveness :: "ssacfg \<Rightarrow> liveness" where
  "literalLiveness g b = [{5}]"

definition literalProgram :: controlFlow where
  "literalProgram = \<lparr>mainGraph = literalGraph, functionGraphMapping = []\<rparr>"

text \<open>The entry scheduler of that program when the visit of block 0 reaches the operations.\<close>

definition literalEntered :: transform where
  "literalEntered =
     \<lparr>m_assembly = \<lparr>requests = [NewLabelId 0, AppendLabel 0, SetStackHeight 0], labelCount = 1\<rparr>,
      m_cfg = literalGraph, m_liveness = literalLiveness literalGraph, m_functionLabels = [],
      m_blockData = [\<lparr>label = Some 0, stackIn = Some []\<rparr>],
      m_stack = [], m_stackErrors = [], m_currentBlock = 0\<rparr>"

text \<open>
  The spec's scenario of an operand that lies too deep, as a program: twenty-one operations
  produce the ordinary values 0 to 20, and two further operations each take all of them
  as inputs. Every value is live from its definition up to the last operation.
\<close>

definition deepOperations :: "operation list" where
  "deepOperations =
     map (\<lambda>i. \<lparr>inputs = [], outputs = [i]\<rparr>) [0..<21]
       @ [\<lparr>inputs = [0..<21], outputs = []\<rparr>, \<lparr>inputs = [0..<21], outputs = []\<rparr>]"

definition deepGraph :: ssacfg where
  "deepGraph = \<lparr>blocks = [\<lparr>operations = deepOperations\<rparr>],
                 valueInfos = replicate 21 OrdinaryValue, func = None,
                 arguments = [], returns = [], debugData = None\<rparr>"

definition deepLiveness :: "ssacfg \<Rightarrow> liveness" where
  "deepLiveness g b = map (\<lambda>i. {0..i}) [0..<21] @ [{0..<21}, {}]"

definition deepProgram :: controlFlow where
  "deepProgram = \<lparr>mainGraph = deepGraph, functionGraphMapping = []\<rparr>"

text \<open>Two distinct functions with the same source name \<open>f\<close> and two arguments each.\<close>

definition functionF :: scopeFunction where
  "functionF = \<lparr>address = 1, name = ''f''\<rparr>"

definition functionF2 :: scopeFunction where
  "functionF2 = \<lparr>address = 2, name = ''f''\<rparr>"

definition graphOf :: "scopeFunction \<Rightarrow> ssacfg" where
  "graphOf f = \<lparr>blocks = [\<lparr>operations = []\<rparr>], valueInfos = replicate 2 OrdinaryValue,
                 func = Some f, arguments = [0, 1], returns = [], debugData = None\<rparr>"

definition duplicateProgram :: controlFlow where
  "duplicateProgram =
     \<lparr>mainGraph = emptyGraph,
      functionGraphMapping = [(functionF, graphOf functionF), (functionF2, graphOf functionF2)]\<rparr>"

text \<open>A working stack of two slots.\<close>

definition pairTransform :: transform where
  "pairTransform = freshTransform\<lparr>m_stack := [ValueSlot 1, ValueSlot 2]\<rparr>"

text \<open>
  A block of two operations whose entry layout has two slots, visited by a caller whose
  own working stack holds one slot; an oracle with a record for each operation, and one
  that is a record short.
\<close>

definition exampleGraph :: ssacfg where
  "exampleGraph =
     \<lparr>blocks = [\<lparr>operations = [\<lparr>inputs = [], outputs = [1]\<rparr>, \<lparr>inputs = [1], outputs = [2]\<rparr>]\<rparr>],
      valueInfos = replicate 5 OrdinaryValue,
      func = None, arguments = [], returns = [], debugData = None\<rparr>"

definition exampleLiveness :: liveness where
  "exampleLiveness b = [{1}, {2}]"

definition shortLiveness :: liveness where
  "shortLiveness b = [{1}]"

definition exampleTransform :: transform where
  "exampleTransform =
     \<lparr>m_assembly = emptyAssembly, m_cfg = exampleGraph, m_liveness = exampleLiveness,
      m_functionLabels = [],
      m_blockData = [\<lparr>label = None, stackIn = Some [ValueSlot 3, ValueSlot 4]\<rparr>],
      m_stack = [ValueSlot 7], m_stackErrors = [], m_currentBlock = invalidId\<rparr>"

definition exampleEntered :: transform where
  "exampleEntered =
     exampleTransform
       \<lparr>m_assembly := \<lparr>requests = [NewLabelId 0, AppendLabel 0, SetStackHeight 2], labelCount = 1\<rparr>,
        m_blockData := [\<lparr>label = Some 0, stackIn = Some [ValueSlot 3, ValueSlot 4]\<rparr>],
        m_stack := [ValueSlot 3, ValueSlot 4], m_currentBlock := 0\<rparr>"

text \<open>
  Bodies for the two visits that record one violation each, to run the driver on units
  that report something.
\<close>

definition recordingVisitOperation ::
  "operation \<Rightarrow> valueId set \<Rightarrow> transform \<Rightarrow> error + transform" where
  "recordingVisitOperation operation liveOut t =
     Inr (t\<lparr>m_stackErrors :=
              m_stackErrors t @ [StackTooDeepError ''main'' (length (inputs operation))]\<rparr>)"

definition recordingVisitFunction ::
  "scopeFunction \<Rightarrow> ssacfg \<Rightarrow> transform \<Rightarrow> error + transform" where
  "recordingVisitFunction f g t =
     Inr (t\<lparr>m_stackErrors := m_stackErrors t @ [StackTooDeepError (name f) (address f)]\<rparr>)"

definition recordingProgram :: controlFlow where
  "recordingProgram =
     \<lparr>mainGraph = literalGraph,
      functionGraphMapping = [(functionF, graphOf functionF), (functionF2, graphOf functionF2)]\<rparr>"

text \<open>
  A body for the per-operation visit that leaves a trace: it notes how many inputs the
  operation it is given has, and whether the live set it is given with it is the set of
  that operation's outputs.
\<close>

definition tracingVisitOperation ::
  "operation \<Rightarrow> valueId set \<Rightarrow> transform \<Rightarrow> error + transform" where
  "tracingVisitOperation operation liveOut t =
     Inr (t\<lparr>m_stackErrors :=
              m_stackErrors t
                @ [StackTooDeepError
                     (if liveOut = set (outputs operation) then ''paired'' else ''unpaired'')
                     (length (inputs operation))]\<rparr>)"

section \<open>Basic facts\<close>

lemmas example_defs =
  exampleTransform_def exampleEntered_def exampleGraph_def exampleLiveness_def
  emptyAssembly_def freshTransform_def emptyGraph_def noLiveness_def

lemmas format_defs =
  stackToString_def stackSlotToString_def ssaCfgVarToString_def valueInfo_def invalidId_def

lemmas visit_defs =
  visitBlock_def visitBlockWith_def enterBlock_def defineLabel_def loadStackIn_def
  reportStackHeight_def blockDataAt_def blockOperations_def visitOperation_def
  newLabelId_def appendLabel_def setStackHeight_def castInt_def Let_def format_defs

lemmas construct_defs =
  mainCodeTransform_def newTransform_def functionLabels_def forceEmptyEntry_def
  setInsert_def namedLabel_def

text \<open>The name check of the constructor never fires: the set it consults is always empty.\<close>

lemma functionLabels_total: "\<exists>r. functionLabels policy cfg a = Inr r"
  by (simp add: functionLabels_def setInsert_def Let_def split: option.splits)

lemma newTransform_total: "\<exists>t. newTransform policy cfg live a = Inr t"
  using functionLabels_total [of policy cfg a]
  by (auto simp: newTransform_def split: sum.splits prod.splits)

lemma newTransform_blockData:
  "newTransform policy cfg live a = Inr t \<Longrightarrow> length (m_blockData t) = length (blocks cfg)"
  by (auto simp: newTransform_def split: sum.splits prod.splits)

lemma newTransform_fields:
  "newTransform policy cfg live a = Inr t \<Longrightarrow>
     m_cfg t = cfg \<and> m_liveness t = live \<and> m_stack t = [] \<and> m_stackErrors t = []"
  by (auto simp: newTransform_def split: sum.splits prod.splits)

text \<open>Entering a block touches the sink, the block table and the working stack only.\<close>

lemma enterBlock_frame:
  "enterBlock b t = Inr t1 \<Longrightarrow>
     m_cfg t1 = m_cfg t \<and> m_liveness t1 = m_liveness t \<and> m_stackErrors t1 = m_stackErrors t"
  by (auto simp: enterBlock_def defineLabel_def loadStackIn_def reportStackHeight_def
        blockDataAt_def Let_def
      split: sum.splits if_splits option.splits)

lemma enterBlock_stack:
  "enterBlock b t = Inr t1 \<Longrightarrow>
     b < length (m_blockData t) \<and> stackIn (m_blockData t ! b) = Some (m_stack t1)"
  by (auto simp: enterBlock_def defineLabel_def loadStackIn_def reportStackHeight_def
        blockDataAt_def Let_def
      split: sum.splits if_splits option.splits)

lemma enterBlock_report:
  "enterBlock b t = Inr t1 \<Longrightarrow>
     \<exists>front. requests (m_assembly t1) =
                requests (m_assembly t) @ front @ [SetStackHeight (castInt (length (m_stack t1)))]
        \<and> (\<forall>h. SetStackHeight h \<notin> set front)"
  by (auto simp: enterBlock_def defineLabel_def loadStackIn_def reportStackHeight_def
        blockDataAt_def Let_def setStackHeight_def appendLabel_def newLabelId_def
      split: sum.splits if_splits option.splits)

lemma enterBlock_succeeds:
  "b < length (m_blockData t) \<Longrightarrow> stackIn (m_blockData t ! b) = Some s \<Longrightarrow>
     \<exists>t1. enterBlock b t = Inr t1"
  by (cases "label (m_blockData t ! b)")
     (simp_all add: enterBlock_def defineLabel_def loadStackIn_def blockDataAt_def Let_def)

lemma castInt_small: "n < 2 ^ 31 \<Longrightarrow> castInt n = int n"
  by (simp add: castInt_def)

lemma heightReports_append:
  assumes "requests a' = requests a @ front @ [SetStackHeight h]"
    and "\<forall>k. SetStackHeight k \<notin> set front"
  shows "heightReports a' = heightReports a @ [h]"
proof -
  have "concat (map (\<lambda>r. case r of SetStackHeight h \<Rightarrow> [h] | _ \<Rightarrow> []) front) = []"
    using assms(2) by (induction front) (auto split: request.splits)
  then show ?thesis using assms(1) by (simp add: heightReports_def)
qed

text \<open>The debugging print of an empty stack looks nothing up.\<close>

lemma stackToString_Nil: "stackToString t [] = Inr ''[]''"
  by (simp add: stackToString_def joinHumanReadable_def)

text \<open>With the empty body of the source, the loop over the operations changes nothing.\<close>

lemma processOperations_visitOperation: "processOperations visitOperation ps t = Inr t"
  by (induction ps) (auto simp: visitOperation_def)

text \<open>
  The loop over the operations is the left fold of the per-operation visit over the
  paired list that stops at the first fault.
\<close>

lemma foldl_fault:
  "foldl (\<lambda>r p. case r of Inl e \<Rightarrow> Inl e | Inr u \<Rightarrow> f p u) (Inl e) ps = Inl e"
  by (induction ps) simp_all

lemma processOperations_foldl:
  "processOperations step (map (\<lambda>i. (f i, g i)) js) t =
     foldl (\<lambda>r i. case r of Inl e \<Rightarrow> Inl e | Inr u \<Rightarrow> step (f i) (g i) u) (Inr t) js"
proof (induction js arbitrary: t)
  case Nil
  show ?case by simp
next
  case (Cons j js)
  show ?case
  proof (cases "step (f j) (g j) t")
    case (Inl e)
    then show ?thesis
      using foldl_fault [of "\<lambda>i u. step (f i) (g i) u" e js] by simp
  next
    case (Inr t')
    then show ?thesis by (simp add: Cons.IH)
  qed
qed

lemma zip_by_index:
  "length xs = length ys \<Longrightarrow> zip xs ys = map (\<lambda>i. (xs ! i, ys ! i)) [0..<length xs]"
  by (auto intro!: nth_equalityI)

text \<open>
  The visit of a block that has been entered and printed: the count assertion, then the
  per-operation visits in the order of the index, then the caller's stack put back.
\<close>

lemma visitBlockWith_entered:
  assumes "enterBlock b (t\<lparr>m_currentBlock := b, m_stack := []\<rparr>) = Inr t1"
    and "stackToString t1 (m_stack t1) = Inr str"
    and "b < length (blocks (m_cfg t))"
  shows "visitBlockWith step b t =
     (if length (operations (blocks (m_cfg t) ! b)) \<noteq> length (m_liveness t b)
      then Inl (Fault OperationsLivenessMismatch (m_assembly t1))
      else case foldl (\<lambda>r i. case r of
                                Inl e \<Rightarrow> Inl e
                              | Inr u \<Rightarrow>
                                  step (operations (blocks (m_cfg t) ! b) ! i) (m_liveness t b ! i) u)
                  (Inr t1) [0..<length (operations (blocks (m_cfg t) ! b))] of
             Inl e \<Rightarrow> Inl e
           | Inr t2 \<Rightarrow> Inr (t2\<lparr>m_stack := m_stack t\<rparr>))"
proof -
  from enterBlock_frame [OF assms(1)]
  have c: "m_cfg t1 = m_cfg t" and l: "m_liveness t1 = m_liveness t" by simp_all
  show ?thesis
    using assms c l
    by (simp add: visitBlockWith_def blockOperations_def Let_def zip_by_index
        processOperations_foldl)
qed

lemma example_enter:
  "enterBlock 0 (exampleTransform\<lparr>m_currentBlock := 0, m_stack := []\<rparr>) = Inr exampleEntered"
  by (simp add: example_defs visit_defs)

lemma example_print:
  "stackToString exampleEntered (m_stack exampleEntered)
     = Inr (''['' @ joinHumanReadable [''v'' @ decimal 3, ''v'' @ decimal 4] @ '']'')"
  by (simp add: example_defs format_defs)

lemma example_visit:
  "visitBlock 0 exampleTransform = Inr (exampleEntered\<lparr>m_stack := [ValueSlot 7]\<rparr>)"
  by (simp add: example_defs visit_defs)

lemma literal_enter:
  "(case mainCodeTransform literalLiveness Never literalProgram emptyAssembly of
      Inl e \<Rightarrow> Inl e
    | Inr t \<Rightarrow> enterBlock 0 (t\<lparr>m_currentBlock := 0, m_stack := []\<rparr>)) = Inr literalEntered"
  by (simp add: construct_defs literalProgram_def literalGraph_def literalLiveness_def
      literalEntered_def emptyAssembly_def visit_defs)

text \<open>The loop over the functions, in terms of the units it schedules.\<close>

lemma compileFunctionsWith_units:
  "compileFunctionsWith fstep mkLiveness policy fs a errs =
     (case functionUnits fstep mkLiveness policy fs a of
        Inl e \<Rightarrow> Inl e
      | Inr us \<Rightarrow>
          Inr (errs @ concat (map m_stackErrors us), if us = [] then a else m_assembly (last us)))"
proof (induction fs arbitrary: a errs)
  case Nil
  then show ?case by simp
next
  case (Cons fg fs)
  obtain f g where fg: "fg = (f, g)" by (cases fg)
  show ?case
    unfolding fg by (simp add: Cons.IH split: sum.splits)
qed

text \<open>What the constructor, the forcing of the entry layout and the stub visit of a function hand to the sink holds no height report.\<close>

lemma heightReports_requests:
  "heightReports (snd (newLabelId a)) = heightReports a"
  "heightReports (snd (namedLabel nm ps rs d a)) = heightReports a"
  "heightReports (appendLabel l a) = heightReports a"
  "heightReports (setStackHeight h a) = heightReports a @ [h]"
  by (simp_all add: heightReports_def newLabelId_def namedLabel_def appendLabel_def
      setStackHeight_def)

lemma newTransform_heightReports:
  "newTransform policy cfg live a = Inr t \<Longrightarrow> heightReports (m_assembly t) = heightReports a"
  by (auto simp: newTransform_def functionLabels_def setInsert_def Let_def heightReports_requests
      split: sum.splits prod.splits option.splits if_splits)

lemma compileFunctions_heightReports:
  "heightReports (runSink (compileFunctionsWith visitFunction mkLiveness policy fs a errs))
     = heightReports a"
proof (induction fs arbitrary: a errs)
  case Nil
  show ?case by (simp add: runSink_def)
next
  case (Cons fg fs)
  obtain f g where fg: "fg = (f, g)" by (cases fg)
  obtain t where n: "newTransform policy g (mkLiveness g) a = Inr t"
    using newTransform_total by blast
  have v: "visitFunction f g t = Inr t" by (simp add: visitFunction_def)
  show ?case
    unfolding fg using n v newTransform_heightReports [OF n]
    by (simp add: Cons.IH)
qed

text \<open>The same for POP instructions, which entering a block does not hand over either.\<close>

lemma popCount_requests:
  "popCount (snd (newLabelId a)) = popCount a"
  "popCount (snd (namedLabel nm ps rs d a)) = popCount a"
  "popCount (appendLabel l a) = popCount a"
  "popCount (setStackHeight h a) = popCount a"
  by (simp_all add: popCount_def newLabelId_def namedLabel_def appendLabel_def
      setStackHeight_def)

lemma newTransform_popCount:
  "newTransform policy cfg live a = Inr t \<Longrightarrow> popCount (m_assembly t) = popCount a"
  by (auto simp: newTransform_def functionLabels_def setInsert_def Let_def popCount_requests
      split: sum.splits prod.splits option.splits if_splits)

lemma mainCodeTransform_popCount:
  "popCount (sinkAfter (mainCodeTransform mkLiveness policy cf a)) = popCount a"
proof -
  obtain t where n: "newTransform policy (mainGraph cf) (mkLiveness (mainGraph cf)) a = Inr t"
    using newTransform_total by blast
  show ?thesis
    using n newTransform_popCount [OF n]
    by (simp add: mainCodeTransform_def forceEmptyEntry_def blockDataAt_def sinkAfter_def)
qed

lemma compileFunctions_popCount:
  "popCount (runSink (compileFunctionsWith visitFunction mkLiveness policy fs a errs))
     = popCount a"
proof (induction fs arbitrary: a errs)
  case Nil
  show ?case by (simp add: runSink_def)
next
  case (Cons fg fs)
  obtain f g where fg: "fg = (f, g)" by (cases fg)
  obtain t where n: "newTransform policy g (mkLiveness g) a = Inr t"
    using newTransform_total by blast
  have v: "visitFunction f g t = Inr t" by (simp add: visitFunction_def)
  show ?case
    unfolding fg using n v newTransform_popCount [OF n]
    by (simp add: Cons.IH)
qed

lemma enterBlock_popCount:
  "popCount (sinkAfter (enterBlock b t)) = popCount (m_assembly t)"
  by (auto simp: enterBlock_def defineLabel_def loadStackIn_def reportStackHeight_def
        blockDataAt_def Let_def sinkAfter_def popCount_requests
      split: sum.splits option.splits)

lemma visitBlock_popCount:
  "popCount (sinkAfter (visitBlock b t)) = popCount (m_assembly t)"
proof (cases "enterBlock b (t\<lparr>m_currentBlock := b, m_stack := []\<rparr>)")
  case (Inl e)
  with enterBlock_popCount [of b "t\<lparr>m_currentBlock := b, m_stack := []\<rparr>"]
  show ?thesis by (simp add: visitBlock_def visitBlockWith_def)
next
  case (Inr t1)
  with enterBlock_popCount [of b "t\<lparr>m_currentBlock := b, m_stack := []\<rparr>"]
  have "popCount (m_assembly t1) = popCount (m_assembly t)" by (simp add: sinkAfter_def)
  with Inr show ?thesis
    by (simp add: visitBlock_def visitBlockWith_def blockOperations_def Let_def
        processOperations_visitOperation sinkAfter_def split: sum.splits)
qed

text \<open>
  Nothing in the source appends to the violation list: with the empty visits, every
  scheduler ends with the empty list it was constructed with, and a run that returns,
  returns no violation.
\<close>

lemma compileFunctions_records_nothing:
  "compileFunctionsWith visitFunction mkLiveness policy fs a errs = Inr (errs', a') \<Longrightarrow>
     errs' = errs"
proof (induction fs arbitrary: a errs)
  case Nil
  then show ?case by simp
next
  case (Cons fg fs)
  obtain f g where fg: "fg = (f, g)" by (cases fg)
  obtain t where n: "newTransform policy g (mkLiveness g) a = Inr t"
    using newTransform_total by blast
  have v: "visitFunction f g t = Inr t" by (simp add: visitFunction_def)
  from Cons.prems n v newTransform_fields [OF n]
  have "compileFunctionsWith visitFunction mkLiveness policy fs (m_assembly t) errs
          = Inr (errs', a')"
    by (simp add: fg)
  then show ?case by (rule Cons.IH)
qed

lemma run_records_nothing:
  assumes "run mkLiveness policy cf a = Inr (errs, a')"
  shows "errs = []"
proof -
  from assms obtain t t' where
    m: "mainCodeTransform mkLiveness policy cf a = Inr t"
    and v: "visitBlockWith visitOperation 0 t = Inr t'"
    and c: "compileFunctionsWith visitFunction mkLiveness policy (functionGraphMapping cf)
              (m_assembly t') (if m_stackErrors t' \<noteq> [] then m_stackErrors t' else [])
            = Inr (errs, a')"
    by (auto simp: run_def runWith_def split: sum.splits)
  from m have "m_stackErrors t = []"
    by (auto simp: mainCodeTransform_def forceEmptyEntry_def blockDataAt_def
        dest: newTransform_fields split: sum.splits if_splits)
  with v have "m_stackErrors t' = []"
    by (auto simp: visitBlockWith_def Let_def processOperations_visitOperation
        dest: enterBlock_frame split: sum.splits if_splits)
  with c have "compileFunctionsWith visitFunction mkLiveness policy (functionGraphMapping cf)
                 (m_assembly t') [] = Inr (errs, a')"
    by simp
  then show ?thesis by (rule compileFunctions_records_nothing)
qed

section \<open>Operands beyond the addressable depth (C1)\<close>

text \<open>
  C1 on a program whose operation 21 takes the twenty-one values defined before it, all of
  them live after it, which is more than the sixteen slots a swap or a duplicate can
  reach: the run returns no violation at all, and hands the sink the label and the height
  of block 0 and nothing else.
\<close>

theorem deep_operand_no_violation:
  "run deepLiveness Never deepProgram emptyAssembly =
     Inr ([], \<lparr>requests = [NewLabelId 0, AppendLabel 0, SetStackHeight 0], labelCount = 1\<rparr>)
   \<and> inputs (operations (blocks (mainGraph deepProgram) ! 0) ! 21) = [0..<21]
   \<and> deepLiveness (mainGraph deepProgram) 0 ! 21 = {0..<21}
   \<and> maxSwapDepth < length (inputs (operations (blocks (mainGraph deepProgram) ! 0) ! 21))"
proof -
  have ops: "operations (blocks (mainGraph deepProgram) ! 0) = deepOperations"
    by (simp add: deepProgram_def deepGraph_def)
  have n: "length deepOperations = 23" "length (deepLiveness deepGraph 0) = 23"
    by (simp_all add: deepOperations_def deepLiveness_def)
  have i: "inputs (deepOperations ! 21) = [0..<21]"
    by (simp add: deepOperations_def nth_append)
  have l: "deepLiveness (mainGraph deepProgram) 0 ! 21 = {0..<21}"
    by (simp add: deepLiveness_def nth_append)
  have r: "run deepLiveness Never deepProgram emptyAssembly =
     Inr ([], \<lparr>requests = [NewLabelId 0, AppendLabel 0, SetStackHeight 0], labelCount = 1\<rparr>)"
    using n
    by (simp add: run_def runWith_def construct_defs deepProgram_def deepGraph_def
        emptyAssembly_def visitBlockWith_def enterBlock_def defineLabel_def loadStackIn_def
        reportStackHeight_def blockDataAt_def blockOperations_def newLabelId_def
        appendLabel_def setStackHeight_def castInt_def Let_def stackToString_Nil
        processOperations_visitOperation)
  from r i l ops show ?thesis by (simp add: maxSwapDepth_def)
qed

section \<open>Operations (C2)\<close>

text \<open>
  C2 on the spec's scenario of a block with an empty entry stack and one operation that
  produces the literal 5: the whole run hands the sink the label and the height of block 0
  and nothing for the operation, and the visit of the operation returns the scheduler as
  it found it, so that the declared output is not on the working stack afterwards.
\<close>

theorem literal_operation_not_emitted:
  "run literalLiveness Never literalProgram emptyAssembly =
     Inr ([], \<lparr>requests = [NewLabelId 0, AppendLabel 0, SetStackHeight 0], labelCount = 1\<rparr>)
   \<and> (case mainCodeTransform literalLiveness Never literalProgram emptyAssembly of
        Inl e \<Rightarrow> Inl e
      | Inr t \<Rightarrow> enterBlock 0 (t\<lparr>m_currentBlock := 0, m_stack := []\<rparr>)) = Inr literalEntered
   \<and> visitOperation literalOperation {5} literalEntered = Inr literalEntered
   \<and> outputs literalOperation = [5]
   \<and> ValueSlot 5 \<notin> set (m_stack literalEntered)"
  by (simp add: run_def runWith_def construct_defs literalProgram_def literalGraph_def
      literalLiveness_def literalEntered_def literalOperation_def emptyAssembly_def visit_defs
      joinHumanReadable_def)

section \<open>Reported stack height (C3)\<close>

text \<open>
  C3: a visit of a block with the source's traversal reports one stack height to the sink,
  at the point where the working stack has just been set to the block's entry layout, and
  the height reported is the number of slots of the working stack at that point. The
  layout is taken to have fewer than \<open>2 ^ 31\<close> slots, where the conversion to \<^verbatim>\<open>int\<close> is
  exact.
\<close>

theorem reported_height_is_stack_size:
  assumes "visitBlock b t = Inr t'"
    and "stackIn (m_blockData t ! b) = Some s"
    and "length s < 2 ^ 31"
  shows "\<exists>t1. enterBlock b (t\<lparr>m_currentBlock := b, m_stack := []\<rparr>) = Inr t1
           \<and> m_stack t1 = s
           \<and> last (requests (m_assembly t1)) = SetStackHeight (int (length (m_stack t1)))
           \<and> heightReports (m_assembly t') =
               heightReports (m_assembly t) @ [int (length (m_stack t1))]"
proof -
  let ?t0 = "t\<lparr>m_currentBlock := b, m_stack := []\<rparr>"
  from assms(1) obtain t1 where e: "enterBlock b ?t0 = Inr t1"
    by (auto simp: visitBlock_def visitBlockWith_def Let_def split: sum.splits)
  from assms(1) e have a': "m_assembly t' = m_assembly t1"
    by (auto simp: visitBlock_def visitBlockWith_def Let_def processOperations_visitOperation
        split: sum.splits if_splits)
  from enterBlock_stack [OF e] assms(2) have s: "m_stack t1 = s" by simp
  from enterBlock_report [OF e] obtain front where
    r: "requests (m_assembly t1) =
          requests (m_assembly t) @ front @ [SetStackHeight (castInt (length (m_stack t1)))]"
    and f: "\<forall>h. SetStackHeight h \<notin> set front" by auto
  have c: "castInt (length (m_stack t1)) = int (length (m_stack t1))"
    using s assms(3) by (simp add: castInt_small)
  have "last (requests (m_assembly t1)) = SetStackHeight (int (length (m_stack t1)))"
    using r c by simp
  moreover have "heightReports (m_assembly t') =
      heightReports (m_assembly t) @ [int (length (m_stack t1))]"
    using heightReports_append [OF r f] a' c by simp
  ultimately show ?thesis using e s by blast
qed

text \<open>C3 on the example block: the layout has two slots and the height 2 is reported.\<close>

theorem reported_height_is_stack_size_witness:
  "visitBlock 0 exampleTransform = Inr (exampleEntered\<lparr>m_stack := [ValueSlot 7]\<rparr>)
   \<and> stackIn (m_blockData exampleTransform ! 0) = Some [ValueSlot 3, ValueSlot 4]
   \<and> length [ValueSlot 3, ValueSlot 4] < (2::nat) ^ 31
   \<and> m_stack exampleEntered = [ValueSlot 3, ValueSlot 4]
   \<and> heightReports (m_assembly (exampleEntered\<lparr>m_stack := [ValueSlot 7]\<rparr>))
        = heightReports (m_assembly exampleTransform) @ [2]"
proof -
  have s: "stackIn (m_blockData exampleTransform ! 0) = Some [ValueSlot 3, ValueSlot 4]"
    by (simp add: exampleTransform_def)
  have l: "length [ValueSlot 3, ValueSlot 4] < (2::nat) ^ 31" by simp
  from reported_height_is_stack_size [OF example_visit s l] example_enter example_visit s
  show ?thesis by auto
qed

section \<open>The entry unit starts from an empty stack (C4)\<close>

lemma literal_run:
  "run literalLiveness Never literalProgram emptyAssembly =
     Inr ([], \<lparr>requests = [NewLabelId 0, AppendLabel 0, SetStackHeight 0], labelCount = 1\<rparr>)"
  by (simp add: run_def runWith_def construct_defs literalProgram_def literalGraph_def
      literalLiveness_def literalOperation_def emptyAssembly_def visit_defs
      joinHumanReadable_def)

text \<open>
  C4: for a main graph that has its block 0, the part of the driver that runs before the
  traversal of the entry unit yields a scheduler whose block 0 has the empty sequence as
  required entry layout. The driver then visits block 0 of that very scheduler, whatever
  the bodies of the visits are, and that visit sets the working stack to the empty stack
  and reports the height 0 before it checks the counts and turns to the operations, the
  first of which is visited on the empty working stack. Seen from the sink, every run of
  the source reports the height 0 for the entry block and no other height.
\<close>

theorem main_entry_starts_empty:
  assumes "blocks (mainGraph cf) \<noteq> []"
  shows "\<exists>t t1. mainCodeTransform mkLiveness policy cf a = Inr t
           \<and> stackIn (m_blockData t ! 0) = Some []
           \<and> enterBlock 0 (t\<lparr>m_currentBlock := 0, m_stack := []\<rparr>) = Inr t1
           \<and> m_stack t1 = []
           \<and> last (requests (m_assembly t1)) = SetStackHeight 0
           \<and> runWith step fstep mkLiveness policy cf a =
               (case visitBlockWith step 0 t of
                  Inl e \<Rightarrow> Inl e
                | Inr t' \<Rightarrow>
                    compileFunctionsWith fstep mkLiveness policy (functionGraphMapping cf)
                      (m_assembly t')
                      (if m_stackErrors t' \<noteq> [] then m_stackErrors t' else []))
           \<and> visitBlockWith step 0 t =
               (if length (operations (blocks (mainGraph cf) ! 0))
                     \<noteq> length (mkLiveness (mainGraph cf) 0)
                then Inl (Fault OperationsLivenessMismatch (m_assembly t1))
                else case foldl (\<lambda>r i. case r of
                                          Inl e \<Rightarrow> Inl e
                                        | Inr u \<Rightarrow>
                                            step (operations (blocks (mainGraph cf) ! 0) ! i)
                                              (mkLiveness (mainGraph cf) 0 ! i) u)
                            (Inr t1) [0..<length (operations (blocks (mainGraph cf) ! 0))] of
                       Inl e \<Rightarrow> Inl e
                     | Inr t2 \<Rightarrow> Inr (t2\<lparr>m_stack := []\<rparr>))
           \<and> heightReports (runSink (run mkLiveness policy cf a)) = heightReports a @ [0]"
proof -
  let ?ops = "operations (blocks (mainGraph cf) ! 0)"
  let ?live = "mkLiveness (mainGraph cf) 0"
  obtain t0 where n: "newTransform policy (mainGraph cf) (mkLiveness (mainGraph cf)) a = Inr t0"
    using newTransform_total by blast
  with assms have pos: "0 < length (m_blockData t0)"
    by (simp add: newTransform_blockData)
  define t where
    "t = t0\<lparr>m_blockData := (m_blockData t0)[0 := (m_blockData t0 ! 0)\<lparr>stackIn := Some []\<rparr>]\<rparr>"
  have m: "mainCodeTransform mkLiveness policy cf a = Inr t"
    using n pos by (simp add: mainCodeTransform_def forceEmptyEntry_def blockDataAt_def t_def)
  have fields: "m_cfg t = mainGraph cf" "m_liveness t = mkLiveness (mainGraph cf)"
    "m_stack t = []" "m_assembly t = m_assembly t0"
    using newTransform_fields [OF n] by (simp_all add: t_def)
  have s: "stackIn (m_blockData t ! 0) = Some []" using pos by (simp add: t_def)
  have pos': "0 < length (m_blockData t)" using pos by (simp add: t_def)
  obtain t1 where e: "enterBlock 0 (t\<lparr>m_currentBlock := 0, m_stack := []\<rparr>) = Inr t1"
    using enterBlock_succeeds [of 0 "t\<lparr>m_currentBlock := 0, m_stack := []\<rparr>" "[]"] s pos'
    by auto
  from enterBlock_stack [OF e] s have st: "m_stack t1 = []" by simp
  from enterBlock_report [OF e] st obtain front where
    r: "requests (m_assembly t1) = requests (m_assembly t) @ front @ [SetStackHeight 0]"
    and f: "\<forall>h. SetStackHeight h \<notin> set front"
    by (auto simp: castInt_def)
  from r have la: "last (requests (m_assembly t1)) = SetStackHeight 0" by simp
  have h1: "heightReports (m_assembly t1) = heightReports a @ [0]"
    using heightReports_append [OF r f] newTransform_heightReports [OF n] fields(4) by simp
  have p: "stackToString t1 (m_stack t1) = Inr ''[]''"
    using st by (simp add: stackToString_Nil)
  have b: "0 < length (blocks (m_cfg t))" using assms fields(1) by simp
  have rw: "runWith step fstep mkLiveness policy cf a =
               (case visitBlockWith step 0 t of
                  Inl e \<Rightarrow> Inl e
                | Inr t' \<Rightarrow>
                    compileFunctionsWith fstep mkLiveness policy (functionGraphMapping cf)
                      (m_assembly t')
                      (if m_stackErrors t' \<noteq> [] then m_stackErrors t' else []))"
    for step fstep
    using m by (simp add: runWith_def)
  have vb: "visitBlockWith step 0 t =
               (if length ?ops \<noteq> length ?live
                then Inl (Fault OperationsLivenessMismatch (m_assembly t1))
                else case foldl (\<lambda>r i. case r of
                                          Inl e \<Rightarrow> Inl e
                                        | Inr u \<Rightarrow> step (?ops ! i) (?live ! i) u)
                            (Inr t1) [0..<length ?ops] of
                       Inl e \<Rightarrow> Inl e
                     | Inr t2 \<Rightarrow> Inr (t2\<lparr>m_stack := []\<rparr>))"
    for step
    by (rule visitBlockWith_entered [OF e p b, of step, unfolded fields(1) fields(2) fields(3)])
  have c: "m_cfg t1 = m_cfg t" "m_liveness t1 = m_liveness t"
    using enterBlock_frame [OF e] by simp_all
  have vs: "visitBlockWith visitOperation 0 t =
              (if length ?ops \<noteq> length ?live
               then Inl (Fault OperationsLivenessMismatch (m_assembly t1))
               else Inr (t1\<lparr>m_stack := []\<rparr>))"
    using e p b c fields
    by (simp add: visitBlockWith_def blockOperations_def Let_def
        processOperations_visitOperation)
  have hr: "heightReports (runSink (run mkLiveness policy cf a)) = heightReports a @ [0]"
  proof (cases "length ?ops \<noteq> length ?live")
    case True
    then show ?thesis
      using rw [of visitOperation visitFunction] vs h1 by (simp add: run_def runSink_def)
  next
    case False
    then show ?thesis
      using rw [of visitOperation visitFunction] vs h1
        compileFunctions_heightReports
          [of mkLiveness policy "functionGraphMapping cf" "m_assembly t1"]
      by (simp add: run_def)
  qed
  from m s e st la rw [of step fstep] vb [of step] hr show ?thesis by blast
qed

text \<open>C4 on the program of one block with one operation.\<close>

theorem main_entry_starts_empty_witness:
  "blocks (mainGraph literalProgram) \<noteq> []
   \<and> (case mainCodeTransform literalLiveness Never literalProgram emptyAssembly of
        Inl e \<Rightarrow> Inl e
      | Inr t \<Rightarrow> enterBlock 0 (t\<lparr>m_currentBlock := 0, m_stack := []\<rparr>)) = Inr literalEntered
   \<and> m_stack literalEntered = []
   \<and> last (requests (m_assembly literalEntered)) = SetStackHeight 0
   \<and> run literalLiveness Never literalProgram emptyAssembly = Inr ([], m_assembly literalEntered)
   \<and> heightReports (runSink (run literalLiveness Never literalProgram emptyAssembly)) = [0]"
proof -
  have h: "blocks (mainGraph literalProgram) \<noteq> []"
    by (simp add: literalProgram_def literalGraph_def)
  from main_entry_starts_empty
         [OF h, of literalLiveness Never emptyAssembly visitOperation visitFunction]
  obtain t t1 where
    m: "mainCodeTransform literalLiveness Never literalProgram emptyAssembly = Inr t"
    and e: "enterBlock 0 (t\<lparr>m_currentBlock := 0, m_stack := []\<rparr>) = Inr t1"
    and s: "m_stack t1 = []" and r: "last (requests (m_assembly t1)) = SetStackHeight 0"
    and hr: "heightReports (runSink (run literalLiveness Never literalProgram emptyAssembly))
               = heightReports emptyAssembly @ [0]"
    by blast
  from literal_enter m e have "t1 = literalEntered" by simp
  moreover have "heightReports emptyAssembly = []"
    by (simp add: heightReports_def emptyAssembly_def)
  moreover have "run literalLiveness Never literalProgram emptyAssembly
                   = Inr ([], m_assembly literalEntered)"
    using literal_run by (simp add: literalEntered_def)
  ultimately show ?thesis using h m e s r hr literal_enter by simp
qed

section \<open>The driver collects the violations of all units (C5)\<close>

text \<open>
  C5: whatever the visits of operations and functions do, the driver returns what the
  units recorded, concatenated in the order in which the units are scheduled, the entry
  sequence first and the functions after it in the order of the mapping. Recorded
  violations do not stop it: it returns whenever every unit is scheduled without a fault,
  and only a fault of a unit ends it early.
\<close>

theorem run_returns_all_violations:
  "runWith step fstep mkLiveness policy cf a =
     (case scheduledUnits step fstep mkLiveness policy cf a of
        Inl e \<Rightarrow> Inl e
      | Inr us \<Rightarrow> Inr (concat (map m_stackErrors us), m_assembly (last us)))"
  by (simp add: runWith_def scheduledUnits_def compileFunctionsWith_units split: sum.splits)

text \<open>
  C5 on an entry sequence and two functions. With visits that record one violation each,
  the three violations come back, the entry unit's first; with the empty visits of the
  source, the same program yields the empty list.
\<close>

theorem run_returns_all_violations_witness:
  "runWith recordingVisitOperation recordingVisitFunction literalLiveness Never recordingProgram
       emptyAssembly =
     Inr ([StackTooDeepError ''main'' 0, StackTooDeepError ''f'' 1, StackTooDeepError ''f'' 2],
          \<lparr>requests = [NewLabelId 0, AppendLabel 0, SetStackHeight 0, NewLabelId 1, NewLabelId 2],
           labelCount = 3\<rparr>)
   \<and> run literalLiveness Never recordingProgram emptyAssembly =
       Inr ([],
          \<lparr>requests = [NewLabelId 0, AppendLabel 0, SetStackHeight 0, NewLabelId 1, NewLabelId 2],
           labelCount = 3\<rparr>)"
proof -
  note program_defs = recordingProgram_def literalGraph_def literalOperation_def graphOf_def
    functionF_def functionF2_def literalLiveness_def emptyAssembly_def
  note block_defs = visitBlockWith_def enterBlock_def defineLabel_def loadStackIn_def
    reportStackHeight_def blockDataAt_def blockOperations_def stackToString_Nil
    newLabelId_def appendLabel_def setStackHeight_def castInt_def Let_def
  have 1: "runWith recordingVisitOperation recordingVisitFunction literalLiveness Never
             recordingProgram emptyAssembly =
     Inr ([StackTooDeepError ''main'' 0, StackTooDeepError ''f'' 1, StackTooDeepError ''f'' 2],
          \<lparr>requests = [NewLabelId 0, AppendLabel 0, SetStackHeight 0, NewLabelId 1, NewLabelId 2],
           labelCount = 3\<rparr>)"
    using run_returns_all_violations
      [of recordingVisitOperation recordingVisitFunction literalLiveness Never recordingProgram
          emptyAssembly]
    by (simp add: scheduledUnits_def construct_defs program_defs block_defs
        recordingVisitOperation_def recordingVisitFunction_def)
  have 2: "run literalLiveness Never recordingProgram emptyAssembly =
       Inr ([],
          \<lparr>requests = [NewLabelId 0, AppendLabel 0, SetStackHeight 0, NewLabelId 1, NewLabelId 2],
           labelCount = 3\<rparr>)"
    using run_returns_all_violations
      [of visitOperation visitFunction literalLiveness Never recordingProgram emptyAssembly]
    by (simp add: run_def scheduledUnits_def construct_defs program_defs block_defs
        visitOperation_def visitFunction_def)
  from 1 2 show ?thesis by simp
qed

section \<open>Duplicate function names (C6)\<close>

text \<open>
  C6 on two functions named \<open>f\<close> with two arguments each, under the policy that names
  labels and forbids duplicates: the run returns, and both functions have been given a
  named label. The second registration of the name raises no fault.
\<close>

theorem duplicate_name_not_rejected:
  "run noLiveness YesAndForceUnique duplicateProgram emptyAssembly =
     Inr ([], \<lparr>requests = [NewLabelId 0, AppendLabel 0, SetStackHeight 0,
                           NamedLabel ''f'' 2 0 None 1, NamedLabel ''f'' 2 0 None 2],
              labelCount = 3\<rparr>)"
  by (simp add: run_def runWith_def construct_defs duplicateProgram_def emptyGraph_def
      graphOf_def functionF_def functionF2_def noLiveness_def visitFunction_def
      emptyAssembly_def visit_defs joinHumanReadable_def)

section \<open>Blocks without an entry layout (C7)\<close>

text \<open>
  C7: the visit of a block of the table whose required entry layout is not set raises the
  fault of the missing starting layout, whatever the per-operation visit is. The fault
  comes right after the block's label has been defined: no height has been reported and
  no operation has been visited.
\<close>

theorem visitBlock_without_layout_faults:
  "b < length (m_blockData t) \<Longrightarrow> stackIn (m_blockData t ! b) = None \<Longrightarrow>
   visitBlockWith step b t =
     Inl (Fault (NoStartingLayout b)
           (case label (m_blockData t ! b) of
              Some l \<Rightarrow> appendLabel l (m_assembly t)
            | None \<Rightarrow>
                appendLabel (fst (newLabelId (m_assembly t))) (snd (newLabelId (m_assembly t)))))"
  by (auto simp: visitBlockWith_def enterBlock_def defineLabel_def loadStackIn_def
        blockDataAt_def Let_def
      split: sum.splits if_splits option.splits)

text \<open>C7 on a scheduler fresh from the constructor, whose block 0 has no layout yet.\<close>

theorem visitBlock_without_layout_faults_witness:
  "0 < length (m_blockData freshTransform)
   \<and> stackIn (m_blockData freshTransform ! 0) = None
   \<and> visitBlock 0 freshTransform =
       Inl (Fault (NoStartingLayout 0) \<lparr>requests = [NewLabelId 0, AppendLabel 0], labelCount = 1\<rparr>)"
proof -
  have a: "0 < length (m_blockData freshTransform)" by (simp add: freshTransform_def)
  have b: "stackIn (m_blockData freshTransform ! 0) = None" by (simp add: freshTransform_def)
  from visitBlock_without_layout_faults [OF a b, of visitOperation] a b show ?thesis
    by (simp add: visitBlock_def freshTransform_def emptyAssembly_def newLabelId_def
        appendLabel_def)
qed

section \<open>Operations and liveness records (C8)\<close>

text \<open>
  C8: take a block of the graph that has been entered and whose entry layout the
  debugging print can format (every value slot of it is a value of the graph). If the
  block's operations and the oracle's records for the block differ in number, the visit
  raises the fault of the count mismatch; the fault carries the sink as entering left it,
  so no operation has been visited. If the numbers agree, the per-operation visit is
  applied for the indices 0, 1, 2 and so on in this order, at index \<open>i\<close> to the
  operation at index \<open>i\<close> together with the record at index \<open>i\<close> and to the scheduler
  the visit before it returned; a fault of one of them ends the visit of the block, and
  otherwise the block's visit returns what the last one returns, with the caller's stack
  put back. This holds for every body of the per-operation visit.
\<close>

theorem visitBlock_pairs_operations_with_liveness:
  assumes "enterBlock b (t\<lparr>m_currentBlock := b, m_stack := []\<rparr>) = Inr t1"
    and "stackToString t1 (m_stack t1) = Inr str"
    and "b < length (blocks (m_cfg t))"
  shows "visitBlockWith step b t =
     (if length (operations (blocks (m_cfg t) ! b)) \<noteq> length (m_liveness t b)
      then Inl (Fault OperationsLivenessMismatch (m_assembly t1))
      else case foldl (\<lambda>r i. case r of
                                Inl e \<Rightarrow> Inl e
                              | Inr u \<Rightarrow>
                                  step (operations (blocks (m_cfg t) ! b) ! i) (m_liveness t b ! i) u)
                  (Inr t1) [0..<length (operations (blocks (m_cfg t) ! b))] of
             Inl e \<Rightarrow> Inl e
           | Inr t2 \<Rightarrow> Inr (t2\<lparr>m_stack := m_stack t\<rparr>))"
  using assms by (rule visitBlockWith_entered)

text \<open>
  C8 on the example block of two operations. With two records, the tracing visit is
  applied first to the operation without inputs and then to the one with one input, each
  with the record whose index it shares; with an oracle that returns a single record, the
  visit of the block raises the fault.
\<close>

theorem visitBlock_pairs_operations_with_liveness_witness:
  "enterBlock 0 (exampleTransform\<lparr>m_currentBlock := 0, m_stack := []\<rparr>) = Inr exampleEntered
   \<and> stackToString exampleEntered (m_stack exampleEntered)
       = Inr (''['' @ joinHumanReadable [''v'' @ decimal 3, ''v'' @ decimal 4] @ '']'')
   \<and> 0 < length (blocks (m_cfg exampleTransform))
   \<and> visitBlockWith tracingVisitOperation 0 exampleTransform =
       Inr (exampleEntered
              \<lparr>m_stack := [ValueSlot 7],
               m_stackErrors := [StackTooDeepError ''paired'' 0, StackTooDeepError ''paired'' 1]\<rparr>)
   \<and> visitBlockWith tracingVisitOperation 0 (exampleTransform\<lparr>m_liveness := shortLiveness\<rparr>)
       = Inl (Fault OperationsLivenessMismatch (m_assembly exampleEntered))"
proof -
  let ?short = "exampleTransform\<lparr>m_liveness := shortLiveness\<rparr>"
  let ?shortEntered = "exampleEntered\<lparr>m_liveness := shortLiveness\<rparr>"
  have b: "0 < length (blocks (m_cfg exampleTransform))"
    by (simp add: exampleTransform_def exampleGraph_def)
  have e': "enterBlock 0 (?short\<lparr>m_currentBlock := 0, m_stack := []\<rparr>) = Inr ?shortEntered"
    by (simp add: example_defs visit_defs)
  have p': "stackToString ?shortEntered (m_stack ?shortEntered)
              = Inr (''['' @ joinHumanReadable [''v'' @ decimal 3, ''v'' @ decimal 4] @ '']'')"
    by (simp add: example_defs format_defs)
  have b': "0 < length (blocks (m_cfg ?short))"
    by (simp add: exampleTransform_def exampleGraph_def)
  have 1: "visitBlockWith tracingVisitOperation 0 exampleTransform =
       Inr (exampleEntered
              \<lparr>m_stack := [ValueSlot 7],
               m_stackErrors := [StackTooDeepError ''paired'' 0, StackTooDeepError ''paired'' 1]\<rparr>)"
    using visitBlock_pairs_operations_with_liveness
            [OF example_enter example_print b, of tracingVisitOperation]
    by (simp add: example_defs tracingVisitOperation_def upt_rec)
  have 2: "visitBlockWith tracingVisitOperation 0 ?short
       = Inl (Fault OperationsLivenessMismatch (m_assembly exampleEntered))"
    using visitBlock_pairs_operations_with_liveness [OF e' p' b', of tracingVisitOperation]
    by (simp add: example_defs shortLiveness_def)
  from example_enter example_print b 1 2 show ?thesis by simp
qed

section \<open>Discarding the top slot (C9)\<close>

text \<open>
  C9: \<^const>\<open>pop\<close>, the only place where the source hands a POP to the sink, removes
  exactly the top slot of a non-empty working stack, leaves the slots below it as they
  are and hands exactly one POP to the sink; on an empty working stack it raises a fault
  and hands nothing to the sink. No discard drops a live value, because the traversal
  discards nothing: the processing of any sequence of operations of a block returns the
  scheduler, working stack and sink included, as it was before the first of them, so that
  a value in the live set of the operation at index \<open>i\<close> that is on the working stack
  is still on it when the operations up to index \<open>i\<close> have been processed; and neither
  the visit of a block nor a whole run hands a POP to the sink, whether it returns or
  raises a fault.
\<close>

theorem pop_discards_top_only:
  "(m_stack t = s @ [x] \<longrightarrow>
      pop t = Inr (t\<lparr>m_stack := s,
                     m_assembly := (m_assembly t)
                       \<lparr>requests := requests (m_assembly t) @ [AppendInstruction POP]\<rparr>\<rparr>))
   \<and> (m_stack t = [] \<longrightarrow> pop t = Inl (Fault StackEmpty (m_assembly t)))
   \<and> processOperations visitOperation ps t = Inr t
   \<and> (processOperations visitOperation (take (Suc i) ps) t = Inr t'
        \<and> v \<in> snd (ps ! i) \<and> ValueSlot v \<in> set (m_stack t)
      \<longrightarrow> ValueSlot v \<in> set (m_stack t'))
   \<and> popCount (sinkAfter (visitBlock b t)) = popCount (m_assembly t)
   \<and> popCount (runSink (run mkLiveness policy cf a)) = popCount a"
proof -
  have 1: "m_stack t = s @ [x] \<longrightarrow>
      pop t = Inr (t\<lparr>m_stack := s,
                     m_assembly := (m_assembly t)
                       \<lparr>requests := requests (m_assembly t) @ [AppendInstruction POP]\<rparr>\<rparr>)"
    by (simp add: pop_def appendInstruction_def)
  have 2: "m_stack t = [] \<longrightarrow> pop t = Inl (Fault StackEmpty (m_assembly t))"
    by (simp add: pop_def)
  have 5: "popCount (runSink (run mkLiveness policy cf a)) = popCount a"
  proof (cases "mainCodeTransform mkLiveness policy cf a")
    case (Inl e)
    with mainCodeTransform_popCount [of mkLiveness policy cf a] show ?thesis
      by (simp add: run_def runWith_def runSink_def sinkAfter_def)
  next
    case (Inr t0)
    with mainCodeTransform_popCount [of mkLiveness policy cf a]
    have m: "popCount (m_assembly t0) = popCount a" by (simp add: sinkAfter_def)
    show ?thesis
    proof (cases "visitBlockWith visitOperation 0 t0")
      case (Inl e)
      with visitBlock_popCount [of 0 t0] m Inr show ?thesis
        by (simp add: run_def runWith_def runSink_def sinkAfter_def visitBlock_def)
    next
      case (Inr t')
      with visitBlock_popCount [of 0 t0] m
      have "popCount (m_assembly t') = popCount a"
        by (simp add: sinkAfter_def visitBlock_def)
      with Inr \<open>mainCodeTransform mkLiveness policy cf a = Inr t0\<close>
        compileFunctions_popCount [of mkLiveness policy "functionGraphMapping cf" "m_assembly t'"]
      show ?thesis by (simp add: run_def runWith_def)
    qed
  qed
  have 3: "processOperations visitOperation (take (Suc i) ps) t = Inr t'
        \<and> v \<in> snd (ps ! i) \<and> ValueSlot v \<in> set (m_stack t)
      \<longrightarrow> ValueSlot v \<in> set (m_stack t')"
    by (auto simp: processOperations_visitOperation)
  from 1 2 3 processOperations_visitOperation [of ps t] visitBlock_popCount [of b t] 5
  show ?thesis by blast
qed

text \<open>
  C9 on a working stack of two slots and on the empty one, on the example block, whose
  entry layout holds two slots, and on the program with the two functions.
\<close>

theorem pop_discards_top_only_witness:
  "m_stack pairTransform = [ValueSlot 1] @ [ValueSlot 2]
   \<and> pop pairTransform =
       Inr (pairTransform\<lparr>m_stack := [ValueSlot 1],
                          m_assembly := \<lparr>requests = [AppendInstruction POP], labelCount = 0\<rparr>\<rparr>)
   \<and> m_stack freshTransform = []
   \<and> pop freshTransform = Inl (Fault StackEmpty emptyAssembly)
   \<and> processOperations visitOperation
        (zip (operations (blocks (m_cfg exampleEntered) ! 0)) (m_liveness exampleEntered 0))
        exampleEntered = Inr exampleEntered
   \<and> m_stack exampleEntered = [ValueSlot 3, ValueSlot 4]
   \<and> processOperations visitOperation (take (Suc 0) [(literalOperation, {3})]) exampleEntered
       = Inr exampleEntered
   \<and> 3 \<in> snd ([(literalOperation, {3::nat})] ! 0)
   \<and> ValueSlot 3 \<in> set (m_stack exampleEntered)
   \<and> popCount (sinkAfter (visitBlock 0 exampleTransform)) = 0
   \<and> popCount (runSink (run literalLiveness Never recordingProgram emptyAssembly)) = 0"
proof -
  have p: "m_stack pairTransform = [ValueSlot 1] @ [ValueSlot 2]"
    by (simp add: pairTransform_def)
  have f: "m_stack freshTransform = []" by (simp add: freshTransform_def)
  let ?ps = "zip (operations (blocks (m_cfg exampleEntered) ! 0)) (m_liveness exampleEntered 0)"
  note c = pop_discards_top_only
    [of pairTransform "[ValueSlot 1]" "ValueSlot 2" ?ps 0 exampleEntered 3
        0 literalLiveness Never recordingProgram emptyAssembly]
  note d = pop_discards_top_only
    [of freshTransform "[ValueSlot 1]" "ValueSlot 2" ?ps 0 exampleEntered 3
        0 literalLiveness Never recordingProgram emptyAssembly]
  note g = pop_discards_top_only
    [of exampleEntered "[ValueSlot 1]" "ValueSlot 2" ?ps 0 exampleEntered 3
        0 literalLiveness Never recordingProgram emptyAssembly]
  note h = pop_discards_top_only
    [of exampleTransform "[ValueSlot 1]" "ValueSlot 2" "[]" 0 exampleEntered 3
        0 literalLiveness Never recordingProgram emptyAssembly]
  note k = pop_discards_top_only
    [of exampleEntered "[ValueSlot 1]" "ValueSlot 2" "[(literalOperation, {3})]" 0
        exampleEntered 3 0 literalLiveness Never recordingProgram emptyAssembly]
  have 1: "pop pairTransform =
       Inr (pairTransform\<lparr>m_stack := [ValueSlot 1],
                          m_assembly := \<lparr>requests = [AppendInstruction POP], labelCount = 0\<rparr>\<rparr>)"
    using c [THEN conjunct1, THEN mp, OF p]
    by (simp add: pairTransform_def freshTransform_def emptyAssembly_def)
  have 2: "pop freshTransform = Inl (Fault StackEmpty emptyAssembly)"
    using d [THEN conjunct2, THEN conjunct1, THEN mp, OF f]
    by (simp add: freshTransform_def)
  have 3: "processOperations visitOperation
        (zip (operations (blocks (m_cfg exampleEntered) ! 0)) (m_liveness exampleEntered 0))
        exampleEntered = Inr exampleEntered"
    using g by blast
  have 4: "popCount (sinkAfter (visitBlock 0 exampleTransform)) = 0"
    using h by (simp add: popCount_def exampleTransform_def emptyAssembly_def)
  have 5: "popCount (runSink (run literalLiveness Never recordingProgram emptyAssembly)) = 0"
    using c by (simp add: popCount_def emptyAssembly_def)
  have 6: "m_stack exampleEntered = [ValueSlot 3, ValueSlot 4]"
    by (simp add: exampleEntered_def)
  have 7: "processOperations visitOperation (take (Suc 0) [(literalOperation, {3})])
             exampleEntered = Inr exampleEntered"
    using k by simp
  have 8: "3 \<in> snd ([(literalOperation, {3::nat})] ! 0)" by simp
  have 9: "ValueSlot 3 \<in> set (m_stack exampleEntered)"
    using k 7 8 6 by simp
  from p 1 f 2 3 6 7 8 9 4 5 show ?thesis by simp
qed

section \<open>The caller's working stack (C10)\<close>

text \<open>
  C10: when the visit of a block returns, the working stack holds exactly what it held
  before the call, whatever the block's entry layout is and whatever the visits of its
  operations did to the stack in between.
\<close>

theorem visitBlock_restores_stack:
  "visitBlockWith step b t = Inr t' \<Longrightarrow> m_stack t' = m_stack t"
  by (auto simp: visitBlockWith_def Let_def split: sum.splits if_splits)

text \<open>
  C10 on the example block: the caller's stack of one slot is back after a visit that
  worked on the two slots of the entry layout.
\<close>

theorem visitBlock_restores_stack_witness:
  "visitBlock 0 exampleTransform = Inr (exampleEntered\<lparr>m_stack := [ValueSlot 7]\<rparr>)
   \<and> m_stack exampleEntered = [ValueSlot 3, ValueSlot 4]
   \<and> m_stack (exampleEntered\<lparr>m_stack := [ValueSlot 7]\<rparr>) = m_stack exampleTransform
   \<and> m_stack exampleTransform = [ValueSlot 7]"
proof -
  have v: "visitBlockWith visitOperation 0 exampleTransform
             = Inr (exampleEntered\<lparr>m_stack := [ValueSlot 7]\<rparr>)"
    using example_visit by (simp add: visitBlock_def)
  from visitBlock_restores_stack [OF v] v show ?thesis
    by (simp add: visitBlock_def exampleTransform_def exampleEntered_def)
qed

end
